theory Spec2Isabelle
  imports Main "HOL-Library.AList"
begin

section \<open>Data model of package user\<close>

text \<open>
  The package \<^verbatim>\<open>pkg/user\<close> implements fetch, list, create, update and delete of one
  entity, \<^verbatim>\<open>User\<close>, on a DynamoDB table reached through the interface
  \<^verbatim>\<open>dynamodbiface.DynamoDBAPI\<close>. Go error values are made by \<^verbatim>\<open>errors.New\<close> from a
  message; the package keeps its messages in nine variables.
\<close>

datatype error = errors_New string

definition ErrorFailedToFetchRecord :: string where
  "ErrorFailedToFetchRecord = ''failed to fetch record''"

definition ErrorFailedToUnmarshalRecord :: string where
  "ErrorFailedToUnmarshalRecord = ''failed to unmarshal record''"

definition ErrorInvalidUserData :: string where
  "ErrorInvalidUserData = ''invalid user data''"

definition ErrorInvalidEmail :: string where
  "ErrorInvalidEmail = ''invalid email''"

definition ErrorMarshalItem :: string where
  "ErrorMarshalItem = ''could not marshal item''"

definition ErrorDeleteItem :: string where
  "ErrorDeleteItem = ''could not delete item''"

definition ErrorDynamoPutItem :: string where
  "ErrorDynamoPutItem = ''could not dynamo put item''"

definition ErrorUserAlreadyExists :: string where
  "ErrorUserAlreadyExists = ''user already exists''"

definition ErrorUserDoesNotExists :: string where
  "ErrorUserDoesNotExists = ''user does not exists''"

record User =
  Email :: string
  FirstName :: string
  LastName :: string

text \<open>The zero value of the struct: what \<^verbatim>\<open>var u User\<close> and \<^verbatim>\<open>new(User)\<close> hold.\<close>

definition new_User :: User where
  "new_User = \<lparr>Email = [], FirstName = [], LastName = []\<rparr>"

subsection \<open>The request of the gateway\<close>

text \<open>Of \<^verbatim>\<open>events.APIGatewayProxyRequest\<close> the package reads the body and the query
  parameters; a Go map read of a missing key gives the zero value, the empty string.\<close>

record APIGatewayProxyRequest =
  Body :: string
  QueryStringParameters :: "string \<rightharpoonup> string"

definition query_param :: "APIGatewayProxyRequest \<Rightarrow> string \<Rightarrow> string" where
  "query_param req k = (case QueryStringParameters req k of None \<Rightarrow> [] | Some v \<Rightarrow> v)"

subsection \<open>The store interface\<close>

text \<open>
  A DynamoDB attribute value holds one kind of value; an item
  (\<^verbatim>\<open>map[string]*dynamodb.AttributeValue\<close>) maps attribute names to values.
\<close>

datatype AttributeValue =
    S string
  | N string
  | B string
  | BOOL bool
  | NULL
  | SS "string list"
  | NS "string list"
  | BS "string list"
  | L "AttributeValue list"
  | M "(string \<times> AttributeValue) list"

type_synonym Item = "string \<rightharpoonup> AttributeValue"

record GetItemInput =
  Key :: Item
  TableName :: string

record GetItemOutput =
  Item :: Item

record ScanInput =
  TableName :: string

record ScanOutput =
  Items :: "Item list"

record PutItemInput =
  Item :: Item
  TableName :: string

record DeleteItemInput =
  Key :: Item
  TableName :: string

text \<open>
  The four methods of \<^verbatim>\<open>dynamodbiface.DynamoDBAPI\<close> that the package calls, over a store
  state \<open>'s\<close>. Each returns Go's pair of an output and an error (\<open>None\<close> is \<^verbatim>\<open>nil\<close>) and the
  store state after the call; the SDK's output pointer is never \<^verbatim>\<open>nil\<close>. The package
  discards the outputs of \<^verbatim>\<open>PutItem\<close> and \<^verbatim>\<open>DeleteItem\<close>, so these return the error only.
\<close>

record 's DynamoDBAPI =
  GetItem :: "GetItemInput \<Rightarrow> 's \<Rightarrow> (GetItemOutput \<times> error option) \<times> 's"
  Scan :: "ScanInput \<Rightarrow> 's \<Rightarrow> (ScanOutput \<times> error option) \<times> 's"
  PutItem :: "PutItemInput \<Rightarrow> 's \<Rightarrow> error option \<times> 's"
  DeleteItem :: "DeleteItemInput \<Rightarrow> 's \<Rightarrow> error option \<times> 's"

text \<open>
  What a call of the package can observe and change: the state of the store, and the
  requests sent to it so far, in order.
\<close>

datatype call =
    GetItemCall GetItemInput
  | ScanCall ScanInput
  | PutItemCall PutItemInput
  | DeleteItemCall DeleteItemInput

record 's session =
  store :: 's
  sent :: "call list"

definition call_GetItem ::
  "'s DynamoDBAPI \<Rightarrow> GetItemInput \<Rightarrow> 's session \<Rightarrow> (GetItemOutput \<times> error option) \<times> 's session" where
  "call_GetItem dynaClient input \<sigma> =
     (let (r, s) = GetItem dynaClient input (store \<sigma>)
      in (r, \<lparr>store = s, sent = sent \<sigma> @ [GetItemCall input]\<rparr>))"

definition call_Scan ::
  "'s DynamoDBAPI \<Rightarrow> ScanInput \<Rightarrow> 's session \<Rightarrow> (ScanOutput \<times> error option) \<times> 's session" where
  "call_Scan dynaClient input \<sigma> =
     (let (r, s) = Scan dynaClient input (store \<sigma>)
      in (r, \<lparr>store = s, sent = sent \<sigma> @ [ScanCall input]\<rparr>))"

definition call_PutItem ::
  "'s DynamoDBAPI \<Rightarrow> PutItemInput \<Rightarrow> 's session \<Rightarrow> error option \<times> 's session" where
  "call_PutItem dynaClient input \<sigma> =
     (let (r, s) = PutItem dynaClient input (store \<sigma>)
      in (r, \<lparr>store = s, sent = sent \<sigma> @ [PutItemCall input]\<rparr>))"

definition call_DeleteItem ::
  "'s DynamoDBAPI \<Rightarrow> DeleteItemInput \<Rightarrow> 's session \<Rightarrow> error option \<times> 's session" where
  "call_DeleteItem dynaClient input \<sigma> =
     (let (r, s) = DeleteItem dynaClient input (store \<sigma>)
      in (r, \<lparr>store = s, sent = sent \<sigma> @ [DeleteItemCall input]\<rparr>))"

subsection \<open>Library functions\<close>

text \<open>
  The decoders and the encoder come from Go's standard library and the AWS SDK; they are
  parameters of the model. A decoder writes into the value it is given and returns an
  error; the encoder returns an item and an error.
\<close>

record libs =
  json_Unmarshal :: "string \<Rightarrow> User \<Rightarrow> User \<times> error option"
  MarshalMap :: "User \<Rightarrow> Item \<times> error option"
  UnmarshalMap :: "Item \<Rightarrow> User \<Rightarrow> User \<times> error option"
  UnmarshalListOfMaps :: "Item list \<Rightarrow> User list \<Rightarrow> User list \<times> error option"

subsection \<open>The field validator\<close>

text \<open>
  Modelled from the spec: the function \<^verbatim>\<open>validators.IsEmailValid\<close> of the package
  \<^verbatim>\<open>pkg/validators\<close>, which is not among the sources. The specification (section 4.1)
  describes it as a pure predicate that is true iff the candidate matches a conventional
  email pattern: local part, \<^verbatim>\<open>@\<close>, domain, \<^verbatim>\<open>.\<close>, top-level domain; local part and domain
  non-empty and made of printable non-whitespace characters; a top-level domain of at least
  two letters; a length bound. The readings taken here: printable non-whitespace means the
  ASCII codes 33 to 126, the separator \<^verbatim>\<open>@\<close> does not occur inside a part, a letter is
  an ASCII letter, and the length bound is 254 characters.
\<close>

definition printable :: "char \<Rightarrow> bool" where
  "printable c = (33 \<le> (of_char c :: nat) \<and> (of_char c :: nat) \<le> 126)"

definition letter :: "char \<Rightarrow> bool" where
  "letter c = ((65 \<le> (of_char c :: nat) \<and> (of_char c :: nat) \<le> 90) \<or>
               (97 \<le> (of_char c :: nat) \<and> (of_char c :: nat) \<le> 122))"

definition part_char :: "char \<Rightarrow> bool" where
  "part_char c = (printable c \<and> c \<noteq> CHR ''@'')"

definition IsEmailValid :: "string \<Rightarrow> bool" where
  "IsEmailValid candidate =
     (let localpart = takeWhile (\<lambda>c. c \<noteq> CHR ''@'') candidate;
          rest = drop 1 (dropWhile (\<lambda>c. c \<noteq> CHR ''@'') candidate);
          tld = rev (takeWhile (\<lambda>c. c \<noteq> CHR ''.'') (rev rest));
          domain = rev (drop 1 (dropWhile (\<lambda>c. c \<noteq> CHR ''.'') (rev rest)))
      in CHR ''@'' \<in> set candidate \<and> CHR ''.'' \<in> set rest \<and>
         localpart \<noteq> [] \<and> domain \<noteq> [] \<and>
         list_all part_char localpart \<and> list_all part_char domain \<and>
         2 \<le> length tld \<and> list_all letter tld \<and>
         length candidate \<le> 254)"

section \<open>The operations of package user\<close>

definition FetchUser ::
  "libs \<Rightarrow> string \<Rightarrow> string \<Rightarrow> 's DynamoDBAPI \<Rightarrow> 's session
     \<Rightarrow> (User option \<times> error option) \<times> 's session" where
  "FetchUser lib email tableName dynaClient \<sigma> =
     (let input = \<lparr>GetItemInput.Key = [''email'' \<mapsto> S email],
                   GetItemInput.TableName = tableName\<rparr>;
          ((result, err), \<sigma>1) = call_GetItem dynaClient input \<sigma>
      in if err \<noteq> None then ((None, Some (errors_New ErrorFailedToFetchRecord)), \<sigma>1)
         else
           let (item, err) = UnmarshalMap lib (GetItemOutput.Item result) new_User
           in if err \<noteq> None
              then ((None, Some (errors_New ErrorFailedToUnmarshalRecord)), \<sigma>1)
              else ((Some item, None), \<sigma>1))"

definition FetchUsers ::
  "libs \<Rightarrow> string \<Rightarrow> 's DynamoDBAPI \<Rightarrow> 's session
     \<Rightarrow> (User list option \<times> error option) \<times> 's session" where
  "FetchUsers lib tableName dynaClient \<sigma> =
     (let input = \<lparr>ScanInput.TableName = tableName\<rparr>;
          ((result, err), \<sigma>1) = call_Scan dynaClient input \<sigma>
      in if err \<noteq> None then ((None, Some (errors_New ErrorFailedToFetchRecord)), \<sigma>1)
         else
           let (item, err) = UnmarshalListOfMaps lib (Items result) []
           in if err \<noteq> None
              then ((None, Some (errors_New ErrorFailedToUnmarshalRecord)), \<sigma>1)
              else ((Some item, None), \<sigma>1))"

definition CreateUser ::
  "libs \<Rightarrow> APIGatewayProxyRequest \<Rightarrow> string \<Rightarrow> 's DynamoDBAPI \<Rightarrow> 's session
     \<Rightarrow> (User option \<times> error option) \<times> 's session" where
  "CreateUser lib req tableName dynaClient \<sigma> =
     (let (createuser, err) = json_Unmarshal lib (Body req) new_User
      in if err \<noteq> None then ((None, Some (errors_New ErrorInvalidUserData)), \<sigma>)
         else if \<not> IsEmailValid (Email createuser)
         then ((None, Some (errors_New ErrorInvalidEmail)), \<sigma>)
         else
           let ((curruser, _), \<sigma>1) = FetchUser lib (Email createuser) tableName dynaClient \<sigma>
           in if (case curruser of None \<Rightarrow> False | Some u \<Rightarrow> length (Email u) \<noteq> 0)
              then ((None, Some (errors_New ErrorUserAlreadyExists)), \<sigma>1)
              else
                let (attrVal, err) = MarshalMap lib createuser
                in if err \<noteq> None then ((None, Some (errors_New ErrorMarshalItem)), \<sigma>1)
                   else
                     let input = \<lparr>PutItemInput.Item = attrVal,
                                  PutItemInput.TableName = tableName\<rparr>;
                         (err, \<sigma>2) = call_PutItem dynaClient input \<sigma>1
                     in if err \<noteq> None
                        then ((None, Some (errors_New ErrorDynamoPutItem)), \<sigma>2)
                        else ((Some createuser, None), \<sigma>2))"

definition UpdateUser ::
  "libs \<Rightarrow> APIGatewayProxyRequest \<Rightarrow> string \<Rightarrow> 's DynamoDBAPI \<Rightarrow> 's session
     \<Rightarrow> (User option \<times> error option) \<times> 's session" where
  "UpdateUser lib req tableName dynaClient \<sigma> =
     (let (updateuser, err) = json_Unmarshal lib (Body req) new_User
      in if err \<noteq> None then ((None, Some (errors_New ErrorInvalidUserData)), \<sigma>)
         else
           let ((curruser, _), \<sigma>1) = FetchUser lib (Email updateuser) tableName dynaClient \<sigma>
           in if (case curruser of None \<Rightarrow> False | Some u \<Rightarrow> length (Email u) = 0)
              then ((None, Some (errors_New ErrorUserDoesNotExists)), \<sigma>1)
              else
                let (attrbVal, err) = MarshalMap lib updateuser
                in if err \<noteq> None then ((None, Some (errors_New ErrorMarshalItem)), \<sigma>1)
                   else
                     let input = \<lparr>PutItemInput.Item = attrbVal,
                                  PutItemInput.TableName = tableName\<rparr>;
                         (err, \<sigma>2) = call_PutItem dynaClient input \<sigma>1
                     in if err \<noteq> None
                        then ((None, Some (errors_New ErrorDynamoPutItem)), \<sigma>2)
                        else ((Some updateuser, None), \<sigma>2))"

text \<open>\<^verbatim>\<open>new(string)\<close> is a pointer to the empty string.\<close>

definition new_string :: string where
  "new_string = []"

definition DeleteUser ::
  "APIGatewayProxyRequest \<Rightarrow> string \<Rightarrow> 's DynamoDBAPI \<Rightarrow> 's session
     \<Rightarrow> error option \<times> 's session" where
  "DeleteUser req tableName dynaClient \<sigma> =
     (let email = query_param req ''email'';
          input = \<lparr>DeleteItemInput.Key = [''email'' \<mapsto> S email],
                   DeleteItemInput.TableName = new_string\<rparr>;
          (err, \<sigma>1) = call_DeleteItem dynaClient input \<sigma>
      in if err \<noteq> None then (Some (errors_New ErrorDeleteItem), \<sigma>1)
         else (None, \<sigma>1))"

section \<open>Reference collaborators\<close>

text \<open>
  The theorems below hold for every store client and every library. To run the
  operations on concrete requests, this section gives one instance of each collaborator.
\<close>

subsection \<open>An in-memory store\<close>

text \<open>
  Modelled from the spec: the Store, the external key-value table abstraction with get,
  put, delete and scan by key (glossary), every table keyed on the \<^verbatim>\<open>email\<close> attribute
  (section 6). A point read with no matching record succeeds with an empty item (section
  4.2); put overwrites (section 4.2, step 5); delete of an absent key succeeds (section
  8). A request naming a table that does not exist, or carrying no string key, fails.
\<close>

type_synonym tables = "(string \<times> (string \<times> Item) list) list"

definition mem_GetItem ::
  "GetItemInput \<Rightarrow> tables \<Rightarrow> (GetItemOutput \<times> error option) \<times> tables" where
  "mem_GetItem input db =
     (case map_of db (GetItemInput.TableName input) of
        None \<Rightarrow> ((\<lparr>GetItemOutput.Item = Map.empty\<rparr>,
                   Some (errors_New ''ResourceNotFoundException'')), db)
      | Some rows \<Rightarrow>
          (case GetItemInput.Key input ''email'' of
             Some (S k) \<Rightarrow>
               ((\<lparr>GetItemOutput.Item =
                    (case map_of rows k of None \<Rightarrow> Map.empty | Some it \<Rightarrow> it)\<rparr>, None), db)
           | _ \<Rightarrow> ((\<lparr>GetItemOutput.Item = Map.empty\<rparr>,
                    Some (errors_New ''ValidationException'')), db)))"

definition mem_Scan ::
  "ScanInput \<Rightarrow> tables \<Rightarrow> (ScanOutput \<times> error option) \<times> tables" where
  "mem_Scan input db =
     (case map_of db (ScanInput.TableName input) of
        None \<Rightarrow> ((\<lparr>Items = []\<rparr>, Some (errors_New ''ResourceNotFoundException'')), db)
      | Some rows \<Rightarrow> ((\<lparr>Items = map snd rows\<rparr>, None), db))"

definition mem_PutItem :: "PutItemInput \<Rightarrow> tables \<Rightarrow> error option \<times> tables" where
  "mem_PutItem input db =
     (case map_of db (PutItemInput.TableName input) of
        None \<Rightarrow> (Some (errors_New ''ResourceNotFoundException''), db)
      | Some rows \<Rightarrow>
          (case PutItemInput.Item input ''email'' of
             Some (S k) \<Rightarrow>
               (None, AList.update (PutItemInput.TableName input)
                        (AList.update k (PutItemInput.Item input) rows) db)
           | _ \<Rightarrow> (Some (errors_New ''ValidationException''), db)))"

definition mem_DeleteItem :: "DeleteItemInput \<Rightarrow> tables \<Rightarrow> error option \<times> tables" where
  "mem_DeleteItem input db =
     (case map_of db (DeleteItemInput.TableName input) of
        None \<Rightarrow> (Some (errors_New ''ResourceNotFoundException''), db)
      | Some rows \<Rightarrow>
          (case DeleteItemInput.Key input ''email'' of
             Some (S k) \<Rightarrow>
               (None, AList.update (DeleteItemInput.TableName input) (AList.delete k rows) db)
           | _ \<Rightarrow> (Some (errors_New ''ValidationException''), db)))"

definition mem_client :: "tables DynamoDBAPI" where
  "mem_client = \<lparr>GetItem = mem_GetItem, Scan = mem_Scan,
                  PutItem = mem_PutItem, DeleteItem = mem_DeleteItem\<rparr>"

text \<open>The same store behind a connection on which every point read fails.\<close>

definition failing_GetItem ::
  "GetItemInput \<Rightarrow> tables \<Rightarrow> (GetItemOutput \<times> error option) \<times> tables" where
  "failing_GetItem input db =
     ((\<lparr>GetItemOutput.Item = Map.empty\<rparr>, Some (errors_New ''RequestError'')), db)"

definition read_failing_client :: "tables DynamoDBAPI" where
  "read_failing_client = \<lparr>GetItem = failing_GetItem, Scan = mem_Scan,
                           PutItem = mem_PutItem, DeleteItem = mem_DeleteItem\<rparr>"

subsection \<open>An attribute codec and a body decoder\<close>

text \<open>
  Modelled from the spec: the attribute codec of the SDK (\<^verbatim>\<open>dynamodbattribute\<close>), for the
  struct \<^verbatim>\<open>User\<close> only. Encoding then decoding a record gives the record back (section 8);
  the empty item decodes to the zero-valued record (section 4.2); a malformed stored
  representation, here an attribute that is neither a string nor null, fails to decode
  (section 4.2). An empty string is stored as the null attribute.
\<close>

definition encode_string :: "string \<Rightarrow> AttributeValue" where
  "encode_string s = (if s = [] then NULL else S s)"

definition ref_MarshalMap :: "User \<Rightarrow> Item \<times> error option" where
  "ref_MarshalMap u =
     ([''email'' \<mapsto> encode_string (Email u),
       ''firstName'' \<mapsto> encode_string (FirstName u),
       ''lastName'' \<mapsto> encode_string (LastName u)], None)"

fun decode_string :: "AttributeValue option \<Rightarrow> string \<Rightarrow> string \<times> error option" where
  "decode_string None cur = (cur, None)"
| "decode_string (Some (S s)) cur = (s, None)"
| "decode_string (Some NULL) cur = ([], None)"
| "decode_string (Some _) cur = (cur, Some (errors_New ''UnmarshalTypeError''))"

definition ref_UnmarshalMap :: "Item \<Rightarrow> User \<Rightarrow> User \<times> error option" where
  "ref_UnmarshalMap m out =
     (let (e, err1) = decode_string (m ''email'') (Email out);
          (f, err2) = decode_string (m ''firstName'') (FirstName out);
          (l, err3) = decode_string (m ''lastName'') (LastName out)
      in if err1 \<noteq> None then (out, err1)
         else if err2 \<noteq> None then (out, err2)
         else if err3 \<noteq> None then (out, err3)
         else (\<lparr>Email = e, FirstName = f, LastName = l\<rparr>, None))"

fun ref_UnmarshalListOfMaps :: "Item list \<Rightarrow> User list \<Rightarrow> User list \<times> error option" where
  "ref_UnmarshalListOfMaps [] out = ([], None)"
| "ref_UnmarshalListOfMaps (m # ms) out =
     (case ref_UnmarshalMap m new_User of
        (u, None) \<Rightarrow>
          (case ref_UnmarshalListOfMaps ms out of
             (us, None) \<Rightarrow> (u # us, None)
           | (_, Some e) \<Rightarrow> (out, Some e))
      | (_, Some e) \<Rightarrow> (out, Some e))"

text \<open>
  The body decoder \<^verbatim>\<open>json.Unmarshal\<close> is represented on the request bodies of the
  scenarios of section 8 of the specification; on any other body this instance reports a
  syntax error.
\<close>

definition body_full :: string where
  \<open>body_full = ''{"email":"a@b.co","firstName":"A","lastName":"B"}''\<close>

definition body_not_an_email :: string where
  \<open>body_not_an_email = ''{"email":"not-an-email"}''\<close>

definition scenario_bodies :: "(string \<times> User) list" where
  "scenario_bodies =
     [(body_full, \<lparr>Email = ''a@b.co'', FirstName = ''A'', LastName = ''B''\<rparr>),
      (body_not_an_email, \<lparr>Email = ''not-an-email'', FirstName = [], LastName = []\<rparr>)]"

definition scenario_json :: "string \<Rightarrow> User \<Rightarrow> User \<times> error option" where
  "scenario_json body out =
     (case map_of scenario_bodies body of
        Some u \<Rightarrow> (u, None)
      | None \<Rightarrow> (out, Some (errors_New ''invalid character'')))"

definition ref_libs :: libs where
  "ref_libs = \<lparr>json_Unmarshal = scenario_json, MarshalMap = ref_MarshalMap,
                UnmarshalMap = ref_UnmarshalMap,
                UnmarshalListOfMaps = ref_UnmarshalListOfMaps\<rparr>"

text \<open>A store with the table of the deployment, empty, and a session that has sent nothing.\<close>

definition empty_db :: tables where
  "empty_db = [(''go-serverless'', [])]"

definition fresh :: "tables session" where
  "fresh = \<lparr>store = empty_db, sent = []\<rparr>"

text \<open>
  The client whose point reads always succeed and find no record: it answers with the empty
  item, and leaves the store as the read of the given client leaves it.
\<close>

definition reporting_absent :: "'s DynamoDBAPI \<Rightarrow> 's DynamoDBAPI" where
  "reporting_absent dynaClient =
     dynaClient\<lparr>GetItem :=
       \<lambda>input s. ((\<lparr>GetItemOutput.Item = Map.empty\<rparr>, None),
                   snd (GetItem dynaClient input s))\<rparr>"

subsection \<open>Scenario requests and states\<close>

definition req_full :: APIGatewayProxyRequest where
  "req_full = \<lparr>Body = body_full, QueryStringParameters = Map.empty\<rparr>"

definition req_not_an_email :: APIGatewayProxyRequest where
  "req_not_an_email = \<lparr>Body = body_not_an_email, QueryStringParameters = Map.empty\<rparr>"

definition req_delete :: APIGatewayProxyRequest where
  "req_delete = \<lparr>Body = [], QueryStringParameters = [''email'' \<mapsto> ''a@b.co'']\<rparr>"

definition user_full :: User where
  "user_full = \<lparr>Email = ''a@b.co'', FirstName = ''A'', LastName = ''B''\<rparr>"

definition item_full :: Item where
  "item_full =
     [''email'' \<mapsto> S ''a@b.co'', ''firstName'' \<mapsto> S ''A'', ''lastName'' \<mapsto> S ''B'']"

definition key_full :: GetItemInput where
  "key_full = \<lparr>GetItemInput.Key = [''email'' \<mapsto> S ''a@b.co''],
               GetItemInput.TableName = ''go-serverless''\<rparr>"

definition put_full :: PutItemInput where
  "put_full = \<lparr>PutItemInput.Item = item_full, PutItemInput.TableName = ''go-serverless''\<rparr>"

text \<open>The session after the record of \<open>body_full\<close> has been created in the fresh store.\<close>

definition after_create :: "tables session" where
  "after_create = \<lparr>store = [(''go-serverless'', [(''a@b.co'', item_full)])],
                    sent = [GetItemCall key_full, PutItemCall put_full]\<rparr>"

text \<open>
  A session whose table holds a record stored under a key that is not an email address.
\<close>

definition legacy :: "tables session" where
  "legacy = \<lparr>store = [(''go-serverless'',
                         [(''not-an-email'', [''email'' \<mapsto> S ''not-an-email''])])],
              sent = []\<rparr>"

subsection \<open>The shape of an email address\<close>

text \<open>
  The shape \<^verbatim>\<open>localpart@domain.tld\<close> as a property of the whole string, for comparison
  with the validator: some split of the string has a non-empty local part and a non-empty
  domain, both of permitted characters, and a top-level domain of at least two letters,
  within the length bound.
\<close>

definition email_shape :: "string \<Rightarrow> bool" where
  "email_shape s =
     (\<exists>localpart domain tld.
        s = localpart @ ''@'' @ domain @ ''.'' @ tld \<and>
        localpart \<noteq> [] \<and> domain \<noteq> [] \<and>
        list_all part_char localpart \<and> list_all part_char domain \<and>
        2 \<le> length tld \<and> list_all letter tld \<and>
        length s \<le> 254)"

section \<open>Evaluation and basic facts\<close>

lemmas Error_defs =
  ErrorFailedToFetchRecord_def ErrorFailedToUnmarshalRecord_def ErrorInvalidUserData_def
  ErrorInvalidEmail_def ErrorMarshalItem_def ErrorDeleteItem_def ErrorDynamoPutItem_def
  ErrorUserAlreadyExists_def ErrorUserDoesNotExists_def

lemmas op_defs =
  FetchUser_def FetchUsers_def CreateUser_def UpdateUser_def DeleteUser_def
  call_GetItem_def call_Scan_def call_PutItem_def call_DeleteItem_def Let_def

lemmas double_defs =
  ref_libs_def mem_client_def read_failing_client_def failing_GetItem_def reporting_absent_def
  mem_GetItem_def mem_Scan_def mem_PutItem_def mem_DeleteItem_def
  ref_MarshalMap_def ref_UnmarshalMap_def encode_string_def
  scenario_json_def scenario_bodies_def body_full_def body_not_an_email_def
  new_User_def new_string_def fresh_def empty_db_def query_param_def
  req_full_def req_not_an_email_def req_delete_def user_full_def item_full_def
  key_full_def put_full_def after_create_def legacy_def

lemmas validator_defs = IsEmailValid_def part_char_def printable_def letter_def

lemma valid_a_b_co: "IsEmailValid ''a@b.co''"
  by (simp add: validator_defs)

lemma invalid_not_an_email: "\<not> IsEmailValid ''not-an-email''"
  by (simp add: validator_defs)

lemma decode_full: "json_Unmarshal ref_libs (Body req_full) new_User = (user_full, None)"
  by (simp add: double_defs)

lemma decode_not_an_email:
  "json_Unmarshal ref_libs (Body req_not_an_email) new_User =
     (\<lparr>Email = ''not-an-email'', FirstName = [], LastName = []\<rparr>, None)"
  by (simp add: double_defs)

lemma create_full:
  "CreateUser ref_libs req_full ''go-serverless'' mem_client fresh =
     ((Some user_full, None), after_create)"
  by (simp add: op_defs double_defs valid_a_b_co)

lemma fetch_after_create:
  "FetchUser ref_libs ''a@b.co'' ''go-serverless'' mem_client after_create =
     ((Some user_full, None), after_create\<lparr>sent := sent after_create @ [GetItemCall key_full]\<rparr>)"
  by (simp add: op_defs double_defs)

text \<open>Whatever a fetch returns, it has sent exactly one request, the point read.\<close>

lemma FetchUser_sent:
  assumes "FetchUser lib email tableName dynaClient \<sigma> = (r, \<sigma>1)"
  shows "sent \<sigma>1 = sent \<sigma> @ [GetItemCall \<lparr>GetItemInput.Key = [''email'' \<mapsto> S email],
                                               GetItemInput.TableName = tableName\<rparr>]"
  using assms
  by (auto simp: FetchUser_def call_GetItem_def Let_def split: prod.splits if_splits)

lemma error_messages_distinct:
  "distinct [ErrorFailedToFetchRecord, ErrorFailedToUnmarshalRecord, ErrorInvalidUserData,
             ErrorInvalidEmail, ErrorMarshalItem, ErrorDeleteItem, ErrorDynamoPutItem,
             ErrorUserAlreadyExists, ErrorUserDoesNotExists]"
  by (simp add: Error_defs)

lemma fetch_fresh:
  "FetchUser ref_libs ''a@b.co'' ''go-serverless'' mem_client fresh =
     ((Some new_User, None), fresh\<lparr>sent := [GetItemCall key_full]\<rparr>)"
  by (simp add: op_defs double_defs)

lemma failing_read_full:
  "GetItem read_failing_client \<lparr>GetItemInput.Key = [''email'' \<mapsto> S (Email user_full)],
       GetItemInput.TableName = ''go-serverless''\<rparr> (store fresh) =
     ((\<lparr>GetItemOutput.Item = Map.empty\<rparr>, Some (errors_New ''RequestError'')), empty_db)"
  by (simp add: double_defs)

text \<open>The in-memory store returns to a point read what the last put under that key stored.\<close>

lemma mem_put_get:
  assumes "item ''email'' = Some (S k)"
      and "mem_PutItem \<lparr>PutItemInput.Item = item, PutItemInput.TableName = t\<rparr> db = (None, db')"
  shows "fst (mem_GetItem \<lparr>GetItemInput.Key = [''email'' \<mapsto> S k],
                           GetItemInput.TableName = t\<rparr> db') =
           (\<lparr>GetItemOutput.Item = item\<rparr>, None)"
proof (cases "map_of db t")
  case None
  with assms(2) show ?thesis by (simp add: mem_PutItem_def)
next
  case (Some rows)
  with assms have "db' = AList.update t (AList.update k item rows) db"
    by (simp add: mem_PutItem_def)
  then show ?thesis
    by (simp add: mem_GetItem_def update_conv')
qed

text \<open>The reference codec gives every record back, and stores a non-empty email as a string.\<close>

lemma ref_roundtrip: "ref_UnmarshalMap (fst (ref_MarshalMap u)) new_User = (u, None)"
  by (simp add: ref_MarshalMap_def ref_UnmarshalMap_def encode_string_def)

lemma ref_key: "Email u \<noteq> [] \<Longrightarrow> fst (ref_MarshalMap u) ''email'' = Some (S (Email u))"
  by (simp add: ref_MarshalMap_def encode_string_def)

section \<open>Create\<close>

text \<open>
  Claim C5. When the request body decodes to a record whose email the field validator
  rejects, CreateUser returns no record and the error "invalid email", and the session is
  left as it was: the store is unchanged and no request has been sent to it, neither the
  existence-check read nor the write.
\<close>

theorem CreateUser_invalid_email:
  assumes "json_Unmarshal lib (Body req) new_User = (u, None)"
      and "\<not> IsEmailValid (Email u)"
  shows "CreateUser lib req tableName dynaClient \<sigma> =
           ((None, Some (errors_New ErrorInvalidEmail)), \<sigma>)"
  using assms by (simp add: CreateUser_def)

theorem CreateUser_invalid_email_witness:
  "json_Unmarshal ref_libs (Body req_not_an_email) new_User =
     (\<lparr>Email = ''not-an-email'', FirstName = [], LastName = []\<rparr>, None) \<and>
   \<not> IsEmailValid ''not-an-email'' \<and>
   CreateUser ref_libs req_not_an_email ''go-serverless'' mem_client fresh =
     ((None, Some (errors_New ErrorInvalidEmail)), fresh)"
proof -
  have v: "\<not> IsEmailValid (Email \<lparr>Email = ''not-an-email'', FirstName = [], LastName = []\<rparr>)"
    by (simp add: invalid_not_an_email)
  show ?thesis
    using CreateUser_invalid_email [OF decode_not_an_email v, of "''go-serverless''" mem_client fresh]
          decode_not_an_email invalid_not_an_email
    by simp
qed

text \<open>
  Claim C3. When the body decodes to a record with a valid email, and the existence-check
  fetch succeeds and returns a record with a non-empty email, CreateUser returns no record
  and the error "user already exists". It leaves the session as the fetch left it, and since
  the session was entered the only request sent to the store is the point read: no write.
  The instance below is the second of two creates of the same, previously absent, record.
\<close>

theorem CreateUser_already_exists:
  assumes "json_Unmarshal lib (Body req) new_User = (u, None)"
      and "IsEmailValid (Email u)"
      and "FetchUser lib (Email u) tableName dynaClient \<sigma> = ((Some cur, None), \<sigma>1)"
      and "Email cur \<noteq> []"
  shows "CreateUser lib req tableName dynaClient \<sigma> =
           ((None, Some (errors_New ErrorUserAlreadyExists)), \<sigma>1) \<and>
         sent \<sigma>1 = sent \<sigma> @ [GetItemCall \<lparr>GetItemInput.Key = [''email'' \<mapsto> S (Email u)],
                                               GetItemInput.TableName = tableName\<rparr>]"
proof
  show "CreateUser lib req tableName dynaClient \<sigma> =
          ((None, Some (errors_New ErrorUserAlreadyExists)), \<sigma>1)"
    using assms by (simp add: CreateUser_def)
  show "sent \<sigma>1 = sent \<sigma> @ [GetItemCall \<lparr>GetItemInput.Key = [''email'' \<mapsto> S (Email u)],
                                               GetItemInput.TableName = tableName\<rparr>]"
    using assms(3) by (rule FetchUser_sent)
qed

theorem CreateUser_already_exists_witness:
  "CreateUser ref_libs req_full ''go-serverless'' mem_client fresh =
     ((Some user_full, None), after_create) \<and>
   CreateUser ref_libs req_full ''go-serverless'' mem_client after_create =
     ((None, Some (errors_New ErrorUserAlreadyExists)),
      after_create\<lparr>sent := sent after_create @ [GetItemCall key_full]\<rparr>) \<and>
   store (after_create\<lparr>sent := sent after_create @ [GetItemCall key_full]\<rparr>) =
     store after_create \<and>
   sent (after_create\<lparr>sent := sent after_create @ [GetItemCall key_full]\<rparr>) =
     [GetItemCall key_full, PutItemCall put_full, GetItemCall key_full]"
proof -
  have v: "IsEmailValid (Email user_full)"
    by (simp add: user_full_def valid_a_b_co)
  have f: "FetchUser ref_libs (Email user_full) ''go-serverless'' mem_client after_create =
     ((Some user_full, None), after_create\<lparr>sent := sent after_create @ [GetItemCall key_full]\<rparr>)"
    using fetch_after_create by (simp add: user_full_def)
  have e: "Email user_full \<noteq> []"
    by (simp add: user_full_def)
  show ?thesis
    using CreateUser_already_exists [OF decode_full v f e] create_full
    by (simp add: after_create_def)
qed

section \<open>Update\<close>

text \<open>
  Claim C4. When the body decodes, and the precondition fetch succeeds and returns a record
  whose email is empty (the convention for an absent record), UpdateUser returns no record
  and the error "user does not exists". It leaves the session as the fetch left it, and the
  only request sent to the store is the point read: no write.
\<close>

theorem UpdateUser_does_not_exist:
  assumes "json_Unmarshal lib (Body req) new_User = (u, None)"
      and "FetchUser lib (Email u) tableName dynaClient \<sigma> = ((Some cur, None), \<sigma>1)"
      and "Email cur = []"
  shows "UpdateUser lib req tableName dynaClient \<sigma> =
           ((None, Some (errors_New ErrorUserDoesNotExists)), \<sigma>1) \<and>
         sent \<sigma>1 = sent \<sigma> @ [GetItemCall \<lparr>GetItemInput.Key = [''email'' \<mapsto> S (Email u)],
                                               GetItemInput.TableName = tableName\<rparr>]"
proof
  show "UpdateUser lib req tableName dynaClient \<sigma> =
          ((None, Some (errors_New ErrorUserDoesNotExists)), \<sigma>1)"
    using assms by (simp add: UpdateUser_def)
  show "sent \<sigma>1 = sent \<sigma> @ [GetItemCall \<lparr>GetItemInput.Key = [''email'' \<mapsto> S (Email u)],
                                               GetItemInput.TableName = tableName\<rparr>]"
    using assms(2) by (rule FetchUser_sent)
qed

theorem UpdateUser_does_not_exist_witness:
  "UpdateUser ref_libs req_full ''go-serverless'' mem_client fresh =
     ((None, Some (errors_New ErrorUserDoesNotExists)),
      fresh\<lparr>sent := [GetItemCall key_full]\<rparr>) \<and>
   store (fresh\<lparr>sent := [GetItemCall key_full]\<rparr>) = empty_db"
proof -
  have f: "FetchUser ref_libs (Email user_full) ''go-serverless'' mem_client fresh =
     ((Some new_User, None), fresh\<lparr>sent := [GetItemCall key_full]\<rparr>)"
    using fetch_fresh by (simp add: user_full_def)
  have e: "Email new_User = []"
    by (simp add: new_User_def)
  show ?thesis
    using UpdateUser_does_not_exist [OF decode_full f e]
    by (simp add: fresh_def)
qed

text \<open>
  Claim C8. UpdateUser validates no field. When the body decodes, the error it returns is
  none, "user does not exists", "could not marshal item" or "could not dynamo put item",
  whatever the decoded email is; it is never "invalid email". The instance below updates a
  record whose email the validator rejects.
\<close>

theorem UpdateUser_no_validation:
  assumes "json_Unmarshal lib (Body req) new_User = (u, None)"
  shows "snd (fst (UpdateUser lib req tableName dynaClient \<sigma>)) \<in>
           {None, Some (errors_New ErrorUserDoesNotExists),
            Some (errors_New ErrorMarshalItem), Some (errors_New ErrorDynamoPutItem)} \<and>
         snd (fst (UpdateUser lib req tableName dynaClient \<sigma>)) \<noteq>
           Some (errors_New ErrorInvalidEmail)"
proof -
  have m: "snd (fst (UpdateUser lib req tableName dynaClient \<sigma>)) \<in>
           {None, Some (errors_New ErrorUserDoesNotExists),
            Some (errors_New ErrorMarshalItem), Some (errors_New ErrorDynamoPutItem)}"
    using assms by (simp add: UpdateUser_def Let_def split: prod.splits)
  have "ErrorInvalidEmail \<notin> {ErrorUserDoesNotExists, ErrorMarshalItem, ErrorDynamoPutItem}"
    using error_messages_distinct by simp
  with m show ?thesis by auto
qed

theorem UpdateUser_no_validation_witness:
  "json_Unmarshal ref_libs (Body req_not_an_email) new_User =
     (\<lparr>Email = ''not-an-email'', FirstName = [], LastName = []\<rparr>, None) \<and>
   \<not> IsEmailValid ''not-an-email'' \<and>
   fst (UpdateUser ref_libs req_not_an_email ''go-serverless'' mem_client legacy) =
     (Some \<lparr>Email = ''not-an-email'', FirstName = [], LastName = []\<rparr>, None) \<and>
   snd (fst (UpdateUser ref_libs req_not_an_email ''go-serverless'' mem_client legacy)) \<noteq>
     Some (errors_New ErrorInvalidEmail)"
proof -
  have r: "fst (UpdateUser ref_libs req_not_an_email ''go-serverless'' mem_client legacy) =
     (Some \<lparr>Email = ''not-an-email'', FirstName = [], LastName = []\<rparr>, None)"
    by (simp add: op_defs double_defs)
  show ?thesis
    using UpdateUser_no_validation [OF decode_not_an_email, of "''go-serverless''" mem_client legacy]
      decode_not_an_email invalid_not_an_email r
    by simp
qed

section \<open>Fetch\<close>

text \<open>
  Claim C6. Name the outcome of the point read \<open>(result, gerr)\<close> and the outcome of decoding
  the item read \<open>(item, uerr)\<close>. FetchUser returns the error "failed to fetch record"
  exactly when the read failed, and the error "failed to unmarshal record" exactly when the
  read succeeded and the decoding failed. When the read succeeds with the empty item (no
  matching record), and the decoder leaves the zero-valued record untouched on the empty
  item, FetchUser returns that record with no error, and its email is empty.
\<close>

theorem FetchUser_classification:
  assumes "GetItem dynaClient \<lparr>GetItemInput.Key = [''email'' \<mapsto> S email],
                               GetItemInput.TableName = tableName\<rparr> (store \<sigma>) =
             ((result, gerr), s1)"
      and "UnmarshalMap lib (GetItemOutput.Item result) new_User = (item, uerr)"
  shows "(snd (fst (FetchUser lib email tableName dynaClient \<sigma>)) =
            Some (errors_New ErrorFailedToFetchRecord) \<longleftrightarrow> gerr \<noteq> None) \<and>
         (snd (fst (FetchUser lib email tableName dynaClient \<sigma>)) =
            Some (errors_New ErrorFailedToUnmarshalRecord) \<longleftrightarrow> gerr = None \<and> uerr \<noteq> None) \<and>
         (gerr = None \<and> GetItemOutput.Item result = Map.empty \<and>
          UnmarshalMap lib Map.empty new_User = (new_User, None) \<longrightarrow>
            fst (FetchUser lib email tableName dynaClient \<sigma>) = (Some new_User, None) \<and>
            Email new_User = [])"
proof -
  have d: "ErrorFailedToFetchRecord \<noteq> ErrorFailedToUnmarshalRecord"
    using error_messages_distinct by simp
  have r: "fst (FetchUser lib email tableName dynaClient \<sigma>) =
             (if gerr \<noteq> None then (None, Some (errors_New ErrorFailedToFetchRecord))
              else if uerr \<noteq> None then (None, Some (errors_New ErrorFailedToUnmarshalRecord))
              else (Some item, None))"
    using assms by (simp add: FetchUser_def call_GetItem_def)
  have z: "Email new_User = []"
    by (simp add: new_User_def)
  show ?thesis
    using d z assms(2) by (auto simp: r)
qed

theorem FetchUser_classification_witness:
  "fst (FetchUser ref_libs ''a@b.co'' ''go-serverless'' mem_client fresh) =
     (Some new_User, None) \<and>
   Email new_User = [] \<and>
   snd (fst (FetchUser ref_libs ''a@b.co'' ''go-serverless'' mem_client fresh)) \<noteq>
     Some (errors_New ErrorFailedToFetchRecord) \<and>
   snd (fst (FetchUser ref_libs ''a@b.co'' ''go-serverless'' mem_client fresh)) \<noteq>
     Some (errors_New ErrorFailedToUnmarshalRecord)"
proof -
  have g: "GetItem mem_client \<lparr>GetItemInput.Key = [''email'' \<mapsto> S ''a@b.co''],
                               GetItemInput.TableName = ''go-serverless''\<rparr> (store fresh) =
             ((\<lparr>GetItemOutput.Item = Map.empty\<rparr>, None), empty_db)"
    by (simp add: double_defs)
  have u: "UnmarshalMap ref_libs (GetItemOutput.Item \<lparr>GetItemOutput.Item = Map.empty\<rparr>)
             new_User = (new_User, None)"
    by (simp add: double_defs)
  have z: "UnmarshalMap ref_libs Map.empty new_User = (new_User, None)"
    by (simp add: double_defs)
  show ?thesis
    using FetchUser_classification [OF g u] z by simp
qed

section \<open>Results and errors\<close>

text \<open>
  Claim C10. Each of FetchUser, FetchUsers, CreateUser and UpdateUser returns either a
  result and no error, or no result and an error: never both, never neither. So when
  FetchUser returns no error it returns a record; an absent record shows only as an empty
  email.
\<close>

theorem result_xor_error:
  "((fst (fst (FetchUser lib email tableName dynaClient \<sigma>)) \<noteq> None \<and>
     snd (fst (FetchUser lib email tableName dynaClient \<sigma>)) = None) \<or>
    (fst (fst (FetchUser lib email tableName dynaClient \<sigma>)) = None \<and>
     snd (fst (FetchUser lib email tableName dynaClient \<sigma>)) \<noteq> None)) \<and>
   ((fst (fst (FetchUsers lib tableName dynaClient \<sigma>)) \<noteq> None \<and>
     snd (fst (FetchUsers lib tableName dynaClient \<sigma>)) = None) \<or>
    (fst (fst (FetchUsers lib tableName dynaClient \<sigma>)) = None \<and>
     snd (fst (FetchUsers lib tableName dynaClient \<sigma>)) \<noteq> None)) \<and>
   ((fst (fst (CreateUser lib req tableName dynaClient \<sigma>)) \<noteq> None \<and>
     snd (fst (CreateUser lib req tableName dynaClient \<sigma>)) = None) \<or>
    (fst (fst (CreateUser lib req tableName dynaClient \<sigma>)) = None \<and>
     snd (fst (CreateUser lib req tableName dynaClient \<sigma>)) \<noteq> None)) \<and>
   ((fst (fst (UpdateUser lib req tableName dynaClient \<sigma>)) \<noteq> None \<and>
     snd (fst (UpdateUser lib req tableName dynaClient \<sigma>)) = None) \<or>
    (fst (fst (UpdateUser lib req tableName dynaClient \<sigma>)) = None \<and>
     snd (fst (UpdateUser lib req tableName dynaClient \<sigma>)) \<noteq> None)) \<and>
   (snd (fst (FetchUser lib email tableName dynaClient \<sigma>)) = None \<longrightarrow>
      (\<exists>u. fst (fst (FetchUser lib email tableName dynaClient \<sigma>)) = Some u))"
proof -
  have a: "(fst (fst (FetchUser lib email tableName dynaClient \<sigma>)) \<noteq> None \<and>
     snd (fst (FetchUser lib email tableName dynaClient \<sigma>)) = None) \<or>
    (fst (fst (FetchUser lib email tableName dynaClient \<sigma>)) = None \<and>
     snd (fst (FetchUser lib email tableName dynaClient \<sigma>)) \<noteq> None)"
    by (simp add: FetchUser_def Let_def split: prod.splits)
  have b: "(fst (fst (FetchUsers lib tableName dynaClient \<sigma>)) \<noteq> None \<and>
     snd (fst (FetchUsers lib tableName dynaClient \<sigma>)) = None) \<or>
    (fst (fst (FetchUsers lib tableName dynaClient \<sigma>)) = None \<and>
     snd (fst (FetchUsers lib tableName dynaClient \<sigma>)) \<noteq> None)"
    by (simp add: FetchUsers_def Let_def split: prod.splits)
  have c: "(fst (fst (CreateUser lib req tableName dynaClient \<sigma>)) \<noteq> None \<and>
     snd (fst (CreateUser lib req tableName dynaClient \<sigma>)) = None) \<or>
    (fst (fst (CreateUser lib req tableName dynaClient \<sigma>)) = None \<and>
     snd (fst (CreateUser lib req tableName dynaClient \<sigma>)) \<noteq> None)"
    by (simp add: CreateUser_def Let_def split: prod.splits)
  have d: "(fst (fst (UpdateUser lib req tableName dynaClient \<sigma>)) \<noteq> None \<and>
     snd (fst (UpdateUser lib req tableName dynaClient \<sigma>)) = None) \<or>
    (fst (fst (UpdateUser lib req tableName dynaClient \<sigma>)) = None \<and>
     snd (fst (UpdateUser lib req tableName dynaClient \<sigma>)) \<noteq> None)"
    by (simp add: UpdateUser_def Let_def split: prod.splits)
  from a have e: "snd (fst (FetchUser lib email tableName dynaClient \<sigma>)) = None \<longrightarrow>
      (\<exists>u. fst (fst (FetchUser lib email tableName dynaClient \<sigma>)) = Some u)"
    by auto
  from a b c d e show ?thesis by blast
qed

theorem result_xor_error_witness:
  "snd (fst (FetchUser ref_libs ''a@b.co'' ''go-serverless'' mem_client fresh)) = None \<and>
   fst (fst (FetchUser ref_libs ''a@b.co'' ''go-serverless'' mem_client fresh)) = Some new_User"
  using result_xor_error [of ref_libs "''a@b.co''" "''go-serverless''" mem_client fresh]
    fetch_fresh
  by simp

section \<open>Delete\<close>

text \<open>
  Claim C1. DeleteUser should send the table name it is given to the store. On the request
  to delete \<^verbatim>\<open>a@b.co\<close> from the table \<^verbatim>\<open>go-serverless\<close>, which holds that record, the request
  it sends names the empty string as the table; the in-memory store knows no such table, the
  call returns "could not delete item", and the record stays where it was.
\<close>

theorem DeleteUser_drops_table_name:
  "DeleteUser req_delete ''go-serverless'' mem_client after_create =
     (Some (errors_New ErrorDeleteItem),
      \<lparr>store = store after_create,
        sent = sent after_create @
          [DeleteItemCall \<lparr>DeleteItemInput.Key = [''email'' \<mapsto> S ''a@b.co''],
                           DeleteItemInput.TableName = []\<rparr>]\<rparr>)"
  by (simp add: op_defs double_defs)

section \<open>A failed existence check\<close>

text \<open>
  Claim C2, as stated, says that a store error in the existence-check read is treated like
  an absent record. For UpdateUser it is not: on the empty table, the update of a record
  succeeds and writes when the read fails, and returns "user does not exists" when the read
  succeeds and finds nothing.
\<close>

theorem fetch_error_is_not_record_absent:
  "fst (UpdateUser ref_libs req_full ''go-serverless'' read_failing_client fresh) =
     (Some user_full, None) \<and>
   fst (UpdateUser ref_libs req_full ''go-serverless''
          (reporting_absent read_failing_client) fresh) =
     (None, Some (errors_New ErrorUserDoesNotExists)) \<and>
   fst (UpdateUser ref_libs req_full ''go-serverless'' mem_client fresh) =
     (None, Some (errors_New ErrorUserDoesNotExists)) \<and>
   UpdateUser ref_libs req_full ''go-serverless'' read_failing_client fresh \<noteq>
   UpdateUser ref_libs req_full ''go-serverless'' (reporting_absent read_failing_client) fresh"
  by (simp add: op_defs double_defs)

text \<open>
  Claim C2, amended. When the body decodes to \<open>u\<close> and the point read of the existence check
  returns an error, the error is not returned. UpdateUser goes on to encode and write: its
  outcome is "could not marshal item" if the encoding fails, "could not dynamo put item" if
  the put fails, and the record \<open>u\<close> otherwise, after one put of the encoded record to the
  given table. CreateUser, when the email of \<open>u\<close> is valid, does the same, and this is what
  it does on the client that reports the record absent (provided the decoder leaves the
  zero-valued record untouched on the empty item).
\<close>

theorem existence_check_error_not_surfaced:
  fixes lib :: libs and dynaClient :: "'s DynamoDBAPI" and \<sigma> :: "'s session"
    and u :: User and tableName :: string and s1 :: 's
  defines "\<sigma>1 \<equiv> \<lparr>store = s1,
                   sent = sent \<sigma> @ [GetItemCall \<lparr>GetItemInput.Key = [''email'' \<mapsto> S (Email u)],
                                                  GetItemInput.TableName = tableName\<rparr>]\<rparr>"
  defines "proceed \<equiv>
     (case MarshalMap lib u of
        (item, Some me) \<Rightarrow> ((None, Some (errors_New ErrorMarshalItem)), \<sigma>1)
      | (item, None) \<Rightarrow>
          (case call_PutItem dynaClient \<lparr>PutItemInput.Item = item,
                                         PutItemInput.TableName = tableName\<rparr> \<sigma>1 of
             (Some pe, \<sigma>2) \<Rightarrow> ((None, Some (errors_New ErrorDynamoPutItem)), \<sigma>2)
           | (None, \<sigma>2) \<Rightarrow> ((Some u, None), \<sigma>2)))"
  assumes dec: "json_Unmarshal lib (Body req) new_User = (u, None)"
      and get: "GetItem dynaClient \<lparr>GetItemInput.Key = [''email'' \<mapsto> S (Email u)],
                                    GetItemInput.TableName = tableName\<rparr> (store \<sigma>) =
                  ((result, Some e), s1)"
  shows "UpdateUser lib req tableName dynaClient \<sigma> = proceed \<and>
         (IsEmailValid (Email u) \<longrightarrow>
            CreateUser lib req tableName dynaClient \<sigma> = proceed \<and>
            (UnmarshalMap lib Map.empty new_User = (new_User, None) \<longrightarrow>
               CreateUser lib req tableName dynaClient \<sigma> =
               CreateUser lib req tableName (reporting_absent dynaClient) \<sigma>))"
proof -
  have f: "FetchUser lib (Email u) tableName dynaClient \<sigma> =
             ((None, Some (errors_New ErrorFailedToFetchRecord)), \<sigma>1)"
    using get by (simp add: FetchUser_def call_GetItem_def \<sigma>1_def)
  have upd: "UpdateUser lib req tableName dynaClient \<sigma> = proceed"
    using dec f
    by (auto simp: UpdateUser_def proceed_def Let_def split: prod.splits option.splits)
  have cre: "CreateUser lib req tableName dynaClient \<sigma> = proceed"
    if "IsEmailValid (Email u)"
    using dec f that
    by (auto simp: CreateUser_def proceed_def Let_def split: prod.splits option.splits)
  have abs: "CreateUser lib req tableName (reporting_absent dynaClient) \<sigma> = proceed"
    if v: "IsEmailValid (Email u)"
      and z: "UnmarshalMap lib Map.empty new_User = (new_User, None)"
  proof -
    have fa: "FetchUser lib (Email u) tableName (reporting_absent dynaClient) \<sigma> =
                ((Some new_User, None), \<sigma>1)"
      using get z by (simp add: FetchUser_def call_GetItem_def reporting_absent_def \<sigma>1_def)
    have p: "call_PutItem (reporting_absent dynaClient) = call_PutItem dynaClient"
      by (rule ext)+ (simp add: call_PutItem_def reporting_absent_def)
    show ?thesis
      using dec fa v
      by (auto simp: CreateUser_def proceed_def Let_def p new_User_def
               split: prod.splits option.splits)
  qed
  show ?thesis
    using upd cre abs by simp
qed

theorem existence_check_error_not_surfaced_witness:
  "UpdateUser ref_libs req_full ''go-serverless'' read_failing_client fresh =
     ((Some user_full, None), after_create) \<and>
   IsEmailValid (Email user_full) \<and>
   CreateUser ref_libs req_full ''go-serverless'' read_failing_client fresh =
     ((Some user_full, None), after_create) \<and>
   UnmarshalMap ref_libs Map.empty new_User = (new_User, None) \<and>
   CreateUser ref_libs req_full ''go-serverless'' (reporting_absent read_failing_client) fresh =
     ((Some user_full, None), after_create)"
proof -
  have z: "UnmarshalMap ref_libs Map.empty new_User = (new_User, None)"
    by (simp add: double_defs)
  have v: "IsEmailValid (Email user_full)"
    by (simp add: user_full_def valid_a_b_co)
  have m: "MarshalMap ref_libs user_full = (item_full, None)"
    by (simp add: double_defs)
  have p: "call_PutItem read_failing_client
             \<lparr>PutItemInput.Item = item_full, PutItemInput.TableName = ''go-serverless''\<rparr>
             \<lparr>store = empty_db,
              sent = sent fresh @ [GetItemCall \<lparr>GetItemInput.Key = [''email'' \<mapsto> S (Email user_full)],
                                                 GetItemInput.TableName = ''go-serverless''\<rparr>]\<rparr> =
           (None, after_create)"
    by (simp add: op_defs double_defs)
  have ra: "CreateUser ref_libs req_full ''go-serverless'' (reporting_absent read_failing_client) fresh =
             ((Some user_full, None), after_create)"
    by (simp add: op_defs double_defs valid_a_b_co)
  show ?thesis
    using existence_check_error_not_surfaced [OF decode_full failing_read_full] z v
    by (simp add: m p ra)
qed

section \<open>Create, then fetch\<close>

text \<open>
  Claim C7. Let CreateUser succeed with the record \<open>u\<close>. If the codec decodes the encoding of
  \<open>u\<close> back to \<open>u\<close>, and the store answers a point read under the email of \<open>u\<close> with the item
  that a successful put of that encoding has just stored in the same table, then FetchUser
  with the email of \<open>u\<close>, run on the session CreateUser left, returns \<open>u\<close> and no error: the
  same email, first name and last name.
\<close>

theorem create_then_fetch:
  assumes created: "CreateUser lib req tableName dynaClient \<sigma> = ((Some u, None), \<sigma>1)"
      and roundtrip: "\<And>item. MarshalMap lib u = (item, None) \<Longrightarrow>
                        UnmarshalMap lib item new_User = (u, None)"
      and put_get: "\<And>item s s'. MarshalMap lib u = (item, None) \<Longrightarrow>
                      PutItem dynaClient \<lparr>PutItemInput.Item = item,
                                          PutItemInput.TableName = tableName\<rparr> s = (None, s') \<Longrightarrow>
                      fst (GetItem dynaClient \<lparr>GetItemInput.Key = [''email'' \<mapsto> S (Email u)],
                                               GetItemInput.TableName = tableName\<rparr> s') =
                        (\<lparr>GetItemOutput.Item = item\<rparr>, None)"
  shows "fst (FetchUser lib (Email u) tableName dynaClient \<sigma>1) = (Some u, None)"
proof -
  obtain item s where m: "MarshalMap lib u = (item, None)"
    and p: "PutItem dynaClient \<lparr>PutItemInput.Item = item,
                                 PutItemInput.TableName = tableName\<rparr> s = (None, store \<sigma>1)"
    using created
    by (auto simp: CreateUser_def call_PutItem_def Let_def split: prod.splits if_splits)
  have g: "fst (GetItem dynaClient \<lparr>GetItemInput.Key = [''email'' \<mapsto> S (Email u)],
                                     GetItemInput.TableName = tableName\<rparr> (store \<sigma>1)) =
             (\<lparr>GetItemOutput.Item = item\<rparr>, None)"
    using put_get [OF m p] .
  show ?thesis
    using g roundtrip [OF m]
    by (auto simp: FetchUser_def call_GetItem_def Let_def split: prod.splits)
qed

theorem create_then_fetch_witness:
  "CreateUser ref_libs req_full ''go-serverless'' mem_client fresh =
     ((Some user_full, None), after_create) \<and>
   fst (FetchUser ref_libs ''a@b.co'' ''go-serverless'' mem_client after_create) =
     (Some \<lparr>Email = ''a@b.co'', FirstName = ''A'', LastName = ''B''\<rparr>, None)"
proof -
  have rt: "UnmarshalMap ref_libs item new_User = (user_full, None)"
    if "MarshalMap ref_libs user_full = (item, None)" for item
    using that ref_roundtrip [of user_full] by (auto simp: ref_libs_def)
  have pg: "fst (GetItem mem_client \<lparr>GetItemInput.Key = [''email'' \<mapsto> S (Email user_full)],
                                      GetItemInput.TableName = ''go-serverless''\<rparr> s') =
              (\<lparr>GetItemOutput.Item = item\<rparr>, None)"
    if "MarshalMap ref_libs user_full = (item, None)"
      and "PutItem mem_client \<lparr>PutItemInput.Item = item,
                                PutItemInput.TableName = ''go-serverless''\<rparr> s = (None, s')"
    for item s s'
  proof -
    have "item ''email'' = Some (S (Email user_full))"
      using that(1) ref_key [of user_full] by (auto simp: ref_libs_def user_full_def)
    then show ?thesis
      using that(2) mem_put_get by (simp add: mem_client_def)
  qed
  show ?thesis
    using create_then_fetch [OF create_full rt pg] create_full
    by (simp add: user_full_def)
qed

section \<open>The field validator\<close>

lemma cut_at_first:
  assumes "c \<notin> set xs"
  shows "takeWhile (\<lambda>x. x \<noteq> c) (xs @ c # ys) = xs"
    and "dropWhile (\<lambda>x. x \<noteq> c) (xs @ c # ys) = c # ys"
  using assms by (induction xs) auto

lemma first_occurrence:
  assumes "c \<in> set xs"
  shows "xs = takeWhile (\<lambda>x. x \<noteq> c) xs @ c # drop 1 (dropWhile (\<lambda>x. x \<noteq> c) xs)"
proof -
  have ne: "dropWhile (\<lambda>x. x \<noteq> c) xs \<noteq> []"
    using assms by (simp add: dropWhile_eq_Nil_conv) 
  then have "hd (dropWhile (\<lambda>x. x \<noteq> c) xs) = c"
    using hd_dropWhile [of "\<lambda>x. x \<noteq> c" xs] by simp
  with ne have "dropWhile (\<lambda>x. x \<noteq> c) xs = c # drop 1 (dropWhile (\<lambda>x. x \<noteq> c) xs)"
    by (cases "dropWhile (\<lambda>x. x \<noteq> c) xs") simp_all
  then show ?thesis
    using takeWhile_dropWhile_id [of "\<lambda>x. x \<noteq> c" xs] by metis
qed

lemma letter_not_separator: "letter c \<Longrightarrow> c \<noteq> CHR ''.'' \<and> c \<noteq> CHR ''@''"
  by (auto simp: letter_def)

lemma part_char_not_at: "list_all part_char xs \<Longrightarrow> CHR ''@'' \<notin> set xs"
  by (auto simp: list_all_iff part_char_def)

lemma letters_no_dot: "list_all letter xs \<Longrightarrow> CHR ''.'' \<notin> set xs"
  using letter_not_separator by (auto simp: list_all_iff)

lemma shape_parts:
  fixes l d t :: string
  defines "s \<equiv> l @ ''@'' @ d @ ''.'' @ t"
  assumes "CHR ''@'' \<notin> set l" and "CHR ''.'' \<notin> set t"
  shows "takeWhile (\<lambda>c. c \<noteq> CHR ''@'') s = l"
    and "drop 1 (dropWhile (\<lambda>c. c \<noteq> CHR ''@'') s) = d @ ''.'' @ t"
    and "rev (takeWhile (\<lambda>c. c \<noteq> CHR ''.'') (rev (d @ ''.'' @ t))) = t"
    and "rev (drop 1 (dropWhile (\<lambda>c. c \<noteq> CHR ''.'') (rev (d @ ''.'' @ t)))) = d"
proof -
  show "takeWhile (\<lambda>c. c \<noteq> CHR ''@'') s = l"
    using cut_at_first(1) [OF assms(2)] by (simp add: s_def)
  show "drop 1 (dropWhile (\<lambda>c. c \<noteq> CHR ''@'') s) = d @ ''.'' @ t"
    using cut_at_first(2) [OF assms(2)] by (simp add: s_def)
  have r: "rev (d @ ''.'' @ t) = rev t @ CHR ''.'' # rev d"
    by simp
  have n: "CHR ''.'' \<notin> set (rev t)"
    using assms(3) by simp
  show "rev (takeWhile (\<lambda>c. c \<noteq> CHR ''.'') (rev (d @ ''.'' @ t))) = t"
    unfolding r using cut_at_first(1) [OF n] by simp
  show "rev (drop 1 (dropWhile (\<lambda>c. c \<noteq> CHR ''.'') (rev (d @ ''.'' @ t)))) = d"
    unfolding r using cut_at_first(2) [OF n] by simp
qed

lemma shape_imp_valid:
  assumes "email_shape s"
  shows "IsEmailValid s"
proof -
  from assms obtain l d t where
    s: "s = l @ ''@'' @ d @ ''.'' @ t" and
    l: "l \<noteq> []" "list_all part_char l" and
    d: "d \<noteq> []" "list_all part_char d" and
    t: "2 \<le> length t" "list_all letter t" and
    n: "length s \<le> 254"
    unfolding email_shape_def by blast
  have a: "CHR ''@'' \<notin> set l" using l(2) by (rule part_char_not_at)
  have b: "CHR ''.'' \<notin> set t" using t(2) by (rule letters_no_dot)
  note p = shape_parts [OF a b, of d]
  have "CHR ''@'' \<in> set s" "CHR ''.'' \<in> set (d @ ''.'' @ t)"
    by (simp_all add: s)
  then show ?thesis
    unfolding IsEmailValid_def Let_def
    using l d t n p unfolding s [symmetric] by simp
qed

lemma valid_imp_shape:
  assumes "IsEmailValid s"
  shows "email_shape s"
proof -
  define l where "l = takeWhile (\<lambda>c. c \<noteq> CHR ''@'') s"
  define rest where "rest = drop 1 (dropWhile (\<lambda>c. c \<noteq> CHR ''@'') s)"
  define t where "t = rev (takeWhile (\<lambda>c. c \<noteq> CHR ''.'') (rev rest))"
  define d where "d = rev (drop 1 (dropWhile (\<lambda>c. c \<noteq> CHR ''.'') (rev rest)))"
  from assms have
    at: "CHR ''@'' \<in> set s" and dot: "CHR ''.'' \<in> set rest" and
    l: "l \<noteq> []" "list_all part_char l" and
    d: "d \<noteq> []" "list_all part_char d" and
    t: "2 \<le> length t" "list_all letter t" and
    n: "length s \<le> 254"
    unfolding IsEmailValid_def Let_def l_def rest_def t_def d_def by simp_all
  have s: "s = l @ CHR ''@'' # rest"
    unfolding l_def rest_def using first_occurrence [OF at] .
  have "CHR ''.'' \<in> set (rev rest)"
    using dot by simp
  from first_occurrence [OF this]
  have "rev rest = rev t @ CHR ''.'' # rev d"
    unfolding t_def d_def by simp
  then have "rev (rev rest) = rev (rev t @ CHR ''.'' # rev d)"
    by simp
  then have r: "rest = d @ CHR ''.'' # t"
    by simp
  have "s = l @ ''@'' @ d @ ''.'' @ t"
    using s r by simp
  then show ?thesis
    unfolding email_shape_def using l d t n by blast
qed

lemma empty_domain_invalid:
  assumes "CHR ''.'' \<notin> set t"
  shows "\<not> IsEmailValid (l @ ''@.'' @ t)"
proof
  assume v: "IsEmailValid (l @ ''@.'' @ t)"
  show False
  proof (cases "CHR ''@'' \<in> set l")
    case False
    have "l @ ''@.'' @ t = l @ ''@'' @ [] @ ''.'' @ t" by simp
    with shape_parts [OF False assms, of "[]"] v show False
      unfolding IsEmailValid_def Let_def by simp
  next
    case True
    from valid_imp_shape [OF v] obtain l' d' t' where
      s: "l @ ''@.'' @ t = l' @ ''@'' @ d' @ ''.'' @ t'" and
      l': "list_all part_char l'" and d': "list_all part_char d'" and t': "list_all letter t'"
      unfolding email_shape_def by blast
    have "CHR ''@'' \<notin> set t'"
      using t' letter_not_separator by (auto simp: list_all_iff)
    then have one: "count_list (l' @ ''@'' @ d' @ ''.'' @ t') CHR ''@'' = 1"
      using part_char_not_at [OF l'] part_char_not_at [OF d'] by simp
    have "count_list l CHR ''@'' \<noteq> 0"
      using True by (simp add: count_list_0_iff)
    then have two: "2 \<le> count_list (l @ ''@.'' @ t) CHR ''@''"
      by simp
    have "count_list (l @ ''@.'' @ t) CHR ''@'' = count_list (l' @ ''@'' @ d' @ ''.'' @ t') CHR ''@''"
      unfolding s by (rule refl)
    with one two show False by linarith
  qed
qed

text \<open>
  Claim C9. IsEmailValid is true of a string exactly when the string has the shape
  \<^verbatim>\<open>localpart@domain.tld\<close>. It is false of a string without \<^verbatim>\<open>@\<close>, of a string without
  \<^verbatim>\<open>.\<close>, of a string with an empty local part (one that starts with \<^verbatim>\<open>@\<close>), and of a string
  with an empty domain (one where \<^verbatim>\<open>@\<close> is followed at once by the last \<^verbatim>\<open>.\<close>). It is a
  function of the string alone: the same input gives the same answer, and nothing else is
  read or changed.
\<close>

theorem IsEmailValid_shape:
  "(IsEmailValid s \<longleftrightarrow> email_shape s) \<and>
   (CHR ''@'' \<notin> set s \<longrightarrow> \<not> IsEmailValid s) \<and>
   (CHR ''.'' \<notin> set s \<longrightarrow> \<not> IsEmailValid s) \<and>
   \<not> IsEmailValid (''@'' @ s) \<and>
   (CHR ''.'' \<notin> set t \<longrightarrow> \<not> IsEmailValid (l @ ''@.'' @ t))"
proof -
  have a: "IsEmailValid s \<longleftrightarrow> email_shape s"
    using shape_imp_valid valid_imp_shape by blast
  have b: "CHR ''@'' \<notin> set s \<longrightarrow> \<not> IsEmailValid s"
    by (simp add: IsEmailValid_def Let_def)
  have c: "CHR ''.'' \<notin> set s \<longrightarrow> \<not> IsEmailValid s"
    using set_dropWhileD [of "CHR ''.''" "\<lambda>c. c \<noteq> CHR ''@''" s] in_set_dropD [of "CHR ''.''" 1]
    by (auto simp: IsEmailValid_def Let_def)
  have d: "\<not> IsEmailValid (''@'' @ s)"
    by (simp add: IsEmailValid_def Let_def)
  show ?thesis
    using a b c d empty_domain_invalid by blast
qed

theorem IsEmailValid_shape_witness:
  "IsEmailValid ''a@b.co'' \<and> email_shape ''a@b.co'' \<and>
   CHR ''@'' \<notin> set ''not-an-email'' \<and> \<not> IsEmailValid ''not-an-email'' \<and>
   CHR ''.'' \<notin> set ''a@b'' \<and> \<not> IsEmailValid ''a@b'' \<and>
   \<not> IsEmailValid ''@b.co'' \<and>
   CHR ''.'' \<notin> set ''co'' \<and> \<not> IsEmailValid ''a@.co''"
proof -
  have sets: "CHR ''@'' \<notin> set ''not-an-email''" "CHR ''.'' \<notin> set ''a@b''"
    "CHR ''.'' \<notin> set ''co''"
    by simp_all
  have strs: "''@'' @ ''b.co'' = ''@b.co''" "''a'' @ ''@.'' @ ''co'' = ''a@.co''"
    by simp_all
  show ?thesis
    using IsEmailValid_shape [of "''a@b.co''" "''co''" "''a''"]
      IsEmailValid_shape [of "''not-an-email''" "''co''" "''a''"]
      IsEmailValid_shape [of "''a@b''" "''co''" "''a''"]
      IsEmailValid_shape [of "''b.co''" "''co''" "''a''"]
      valid_a_b_co sets
    unfolding strs
    by blast
qed

end
